theory Spec2Isabelle
  imports Main "HOL-Library.Monad_Syntax"
begin

section \<open>Values delivered by the YAML parser\<close>

text \<open>
  \<^verbatim>\<open>parse(configContent) as Config\<close> is an unchecked type assertion: at run time the
  configuration is whatever value the parser built. \<open>jsval\<close> holds the values a YAML
  document evaluates to. Numbers are the integer-valued ones; floating-point numbers are
  not represented.
\<close>

datatype jsval =
    JUndefined
  | JNull
  | JBool bool
  | JNum int
  | JStr string
  | JArray "jsval list"
  | JObject "(string \<times> jsval) list"

text \<open>
  Everything the program throws or lets through. \<open>Error\<close> is \<^verbatim>\<open>new Error(message)\<close>;
  \<open>SyntaxError\<close> is what the catch block of \<^verbatim>\<open>readConfig\<close> tests for; \<open>TypeError\<close> is raised
  by the language itself (\<^verbatim>\<open>in\<close> on a primitive, a property read on \<^verbatim>\<open>null\<close>);
  \<open>ChmodFailed\<close> and \<open>ExecFailed\<close> are the errors of \<^verbatim>\<open>fs.chmodSync\<close> and \<^verbatim>\<open>execSync\<close>;
  \<open>ReadFailed\<close> is an error of \<^verbatim>\<open>fs.readFileSync\<close>.
\<close>

datatype error =
    Error string
  | SyntaxError string
  | TypeError
  | ReadFailed string
  | ChmodFailed string
  | ExecFailed string

text \<open>JavaScript truthiness, as used by \<^verbatim>\<open>!x\<close> and \<^verbatim>\<open>if (x)\<close>.\<close>

fun truthy :: "jsval \<Rightarrow> bool" where
  "truthy JUndefined = False"
| "truthy JNull = False"
| "truthy (JBool b) = b"
| "truthy (JNum n) = (n \<noteq> 0)"
| "truthy (JStr s) = (s \<noteq> [])"
| "truthy (JArray xs) = True"
| "truthy (JObject kvs) = True"

fun isArray :: "jsval \<Rightarrow> bool" where
  "isArray (JArray xs) = True"
| "isArray v = False"

text \<open>
  The property names every ordinary object inherits from \<^verbatim>\<open>Object.prototype\<close>. The
  operator \<^verbatim>\<open>in\<close> walks the prototype chain, so it answers true for these names on
  every object literal, whether or not the object has such a key of its own. The
  accessor \<^verbatim>\<open>__proto__\<close> is one of them; a runtime started with that accessor removed
  would not have this one name.
\<close>

definition objectPrototypeProps :: "string list" where
  "objectPrototypeProps =
     [''constructor'', ''__defineGetter__'', ''__defineSetter__'', ''hasOwnProperty'',
      ''__lookupGetter__'', ''__lookupSetter__'', ''isPrototypeOf'',
      ''propertyIsEnumerable'', ''toString'', ''valueOf'', ''__proto__'',
      ''toLocaleString'']"

text \<open>
  \<^verbatim>\<open>prop in config\<close> for the names of \<^verbatim>\<open>requiredProps\<close>. On an object it is true for own
  keys and inherited names; on an array it is false (none of the six names is an index,
  \<^verbatim>\<open>length\<close> or an array method); on a primitive the operator throws a TypeError.
\<close>

fun prop_in :: "string \<Rightarrow> jsval \<Rightarrow> error + bool" where
  "prop_in prop (JObject kvs) =
     Inr (prop \<in> fst ` set kvs \<or> prop \<in> set objectPrototypeProps)"
| "prop_in prop (JArray xs) = Inr False"
| "prop_in prop v = Inl TypeError"

text \<open>
  A property read \<^verbatim>\<open>v.name\<close> for the names \<^verbatim>\<open>scripts\<close>, \<^verbatim>\<open>setup\<close> and \<^verbatim>\<open>start\<close>, which no
  built-in prototype defines: it throws on \<^verbatim>\<open>undefined\<close> and \<^verbatim>\<open>null\<close>, finds an own key of
  an object, and is \<^verbatim>\<open>undefined\<close> everywhere else.
\<close>

fun get_prop :: "jsval \<Rightarrow> string \<Rightarrow> error + jsval" where
  "get_prop JUndefined name = Inl TypeError"
| "get_prop JNull name = Inl TypeError"
| "get_prop (JObject kvs) name =
     (case map_of kvs name of Some v \<Rightarrow> Inr v | None \<Rightarrow> Inr JUndefined)"
| "get_prop v name = Inr JUndefined"

section \<open>The configuration, as the interface \<^verbatim>\<open>Config\<close> declares it\<close>

record scripts_section =
  scripts_setup :: "string list"
  scripts_start :: string

datatype pyenv = Venv | Conda | NoEnv

record python_section =
  environment :: pyenv

text \<open>
  A port number is a \<^verbatim>\<open>number\<close> with an integer value. The integers that a \<^verbatim>\<open>number\<close>
  holds exactly, and that \<^verbatim>\<open>toString\<close> prints in plain decimal digits, are the safe
  integers, of magnitude below \<open>2 ^ 53\<close>.
\<close>

typedef safe_integer = "{n :: int. \<bar>n\<bar> < 2 ^ 53}"
  by (rule exI [of _ 0]) simp

text \<open>
  The interface declares \<^verbatim>\<open>envVar: number\<close> for a port; the value is used as a property key
  only, and a property key is a string: a number is converted to one.
\<close>

record port_decl =
  port_type :: string
  port_envVar :: string
  port :: safe_integer

record option_decl =
  option_envVar :: string
  option_default :: string
  option_description :: string

record Config =
  appId :: string
  source :: string
  scripts :: scripts_section
  autoInitialize :: bool
  autoActivateEnvBeforeEachStep :: bool
  appRepository :: string
  appVersion :: string
  appDirectory :: string
  python :: "python_section option"
  ports :: "port_decl list option"
  additionalOptions :: "option_decl list option"

section \<open>The process and its surroundings\<close>

type_synonym ProcessEnv = "string \<rightharpoonup> string"

text \<open>
  One call of \<^verbatim>\<open>execSync(command, options)\<close>. An option that the call leaves out is
  \<open>None\<close>: the default shell, the environment of the running process, its working
  directory.
\<close>

record exec_call =
  exec_command :: string
  exec_shell :: "string option"
  exec_env :: "ProcessEnv option"
  exec_cwd :: "string option"

text \<open>
  What the program does to the outside, in order, each with how it ended (\<open>True\<close>: it
  returned, \<open>False\<close>: it threw). Console output is not recorded.
\<close>

datatype event =
    Chmod string string bool
  | Exec exec_call bool

text \<open>
  The library functions and the operating system, none of them code of this repository.
  Whether a chmod or a child process succeeds may depend on everything done so far.
\<close>

record system =
  existsSync :: "string \<Rightarrow> bool"
  readFileSync :: "string \<Rightarrow> error + string"
  parse :: "string \<Rightarrow> error + jsval"
  path_join :: "string \<Rightarrow> string \<Rightarrow> string"
  process_env :: ProcessEnv
  chmodSync :: "event list \<Rightarrow> string \<Rightarrow> string \<Rightarrow> bool"
  execSync :: "event list \<Rightarrow> exec_call \<Rightarrow> bool"

section \<open>readConfig\<close>

definition requiredProps :: "string list" where
  "requiredProps =
     [''appId'', ''source'', ''scripts'', ''appRepository'', ''appVersion'', ''appDirectory'']"

text \<open>The loop over \<^verbatim>\<open>requiredProps\<close>: it throws at the first name that is not in the value.\<close>

fun checkRequired :: "string list \<Rightarrow> jsval \<Rightarrow> error + unit" where
  "checkRequired [] config = Inr ()"
| "checkRequired (prop # props) config =
     (case prop_in prop config of
        Inl e \<Rightarrow> Inl e
      | Inr present \<Rightarrow>
          if \<not> present then Inl (Error (''Missing required property in config: '' @ prop))
          else checkRequired props config)"

text \<open>The check of the \<^verbatim>\<open>scripts\<close> object.\<close>

definition checkScripts :: "jsval \<Rightarrow> error + jsval" where
  "checkScripts config =
     (case get_prop config ''scripts'' of
        Inl e \<Rightarrow> Inl e
      | Inr s \<Rightarrow>
          (case get_prop s ''setup'' of
             Inl e \<Rightarrow> Inl e
           | Inr setup_v \<Rightarrow>
               (case get_prop s ''start'' of
                  Inl e \<Rightarrow> Inl e
                | Inr start_v \<Rightarrow>
                    if \<not> truthy setup_v \<or> \<not> isArray setup_v \<or> \<not> truthy start_v
                    then Inl (Error ''Invalid scripts configuration in config'')
                    else Inr config)))"

definition validateConfig :: "jsval \<Rightarrow> error + jsval" where
  "validateConfig config =
     (case checkRequired requiredProps config of
        Inl e \<Rightarrow> Inl e
      | Inr u \<Rightarrow> checkScripts config)"

text \<open>The catch block: a SyntaxError is wrapped, anything else is thrown again.\<close>

fun rethrow :: "string \<Rightarrow> error + jsval \<Rightarrow> error + jsval" where
  "rethrow configPath (Inl (SyntaxError m)) =
     Inl (Error (''Invalid JSON format in config file: '' @ configPath @ ''. Error: '' @ m))"
| "rethrow configPath r = r"

definition readConfig :: "system \<Rightarrow> string \<Rightarrow> error + jsval" where
  "readConfig sys baseDir =
     (let configPath = path_join sys baseDir ''openlab.yaml'' in
      if \<not> existsSync sys configPath
      then Inl (Error (''Config file not found: '' @ configPath))
      else rethrow configPath
             (case readFileSync sys configPath of
                Inl e \<Rightarrow> Inl e
              | Inr configContent \<Rightarrow>
                  (case parse sys configContent of
                     Inl e \<Rightarrow> Inl e
                   | Inr config \<Rightarrow> validateConfig config)))"

text \<open>
  \<^verbatim>\<open>port.toString()\<close>, and the conversion of a number to a property key, on a safe
  integer: decimal digits, a minus sign first.
\<close>

fun nat_toString :: "nat \<Rightarrow> string" where
  "nat_toString n =
     (if n < 10 then [''0123456789'' ! n]
      else nat_toString (n div 10) @ [''0123456789'' ! (n mod 10)])"

declare nat_toString.simps [simp del]

definition int_toString :: "int \<Rightarrow> string" where
  "int_toString n =
     (if n < 0 then ''-'' @ nat_toString (nat (- n)) else nat_toString (nat n))"

definition number_toString :: "safe_integer \<Rightarrow> string" where
  "number_toString n = int_toString (Rep_safe_integer n)"

section \<open>From the parsed value to the interface\<close>

text \<open>
  The functions after \<^verbatim>\<open>readConfig\<close> are written against the interface \<^verbatim>\<open>Config\<close>.
  \<open>asConfig\<close> reads a parsed value as a member of that interface. Where the code only
  tests or compares a field, the reading follows the code and not the declared type:
  \<^item> the two flags are only tested for truthiness, so any value, and an absent key
    (which reads as \<^verbatim>\<open>undefined\<close>), is taken by its truthiness;
  \<^item> \<^verbatim>\<open>config.python?.environment\<close> is only compared with \<^verbatim>\<open>'venv'\<close> and \<^verbatim>\<open>'conda'\<close>: an
    absent or null \<^verbatim>\<open>python\<close> is no section, and every other environment value (also of a
    \<^verbatim>\<open>python\<close> that is not a mapping, where the read gives \<^verbatim>\<open>undefined\<close>) does what \<^verbatim>\<open>'none'\<close>
    does;
  \<^item> \<^verbatim>\<open>ports\<close> and \<^verbatim>\<open>additionalOptions\<close> are tested for truthiness before the loop, so an
    absent, null or otherwise falsy value is no list;
  \<^item> the \<^verbatim>\<open>type\<close> of a port and the \<^verbatim>\<open>description\<close> of an option are never read: a value
    that is not a string is kept as the empty string;
  \<^item> the \<^verbatim>\<open>envVar\<close> of a port is a string or, as the interface declares it, a number.
  \<open>asConfig\<close> is \<open>None\<close> on every other value that is not a member of the interface (a
  required field, a script, a default or a port number of another type, a list that is
  not an array); what the program does with such a value is outside this development.
\<close>

definition field :: "(string \<times> jsval) list \<Rightarrow> string \<Rightarrow> jsval" where
  "field kvs name = (case map_of kvs name of Some v \<Rightarrow> v | None \<Rightarrow> JUndefined)"

fun as_string :: "jsval \<Rightarrow> string option" where
  "as_string (JStr s) = Some s"
| "as_string v = None"

fun as_strings :: "jsval \<Rightarrow> string list option" where
  "as_strings (JArray xs) = those (map as_string xs)"
| "as_strings v = None"

fun as_number :: "jsval \<Rightarrow> safe_integer option" where
  "as_number (JNum n) = (if \<bar>n\<bar> < 2 ^ 53 then Some (Abs_safe_integer n) else None)"
| "as_number v = None"

fun as_text :: "jsval \<Rightarrow> string" where
  "as_text (JStr s) = s"
| "as_text v = []"

fun as_key :: "jsval \<Rightarrow> string option" where
  "as_key (JStr s) = Some s"
| "as_key (JNum n) = map_option number_toString (as_number (JNum n))"
| "as_key v = None"

fun as_scripts :: "jsval \<Rightarrow> scripts_section option" where
  "as_scripts (JObject kvs) =
     do {
       su \<leftarrow> as_strings (field kvs ''setup'');
       st \<leftarrow> as_string (field kvs ''start'');
       Some \<lparr>scripts_setup = su, scripts_start = st\<rparr>
     }"
| "as_scripts v = None"

fun as_pyenv :: "jsval \<Rightarrow> pyenv" where
  "as_pyenv (JStr s) =
     (if s = ''venv'' then Venv else if s = ''conda'' then Conda else NoEnv)"
| "as_pyenv v = NoEnv"

fun as_python :: "jsval \<Rightarrow> python_section option" where
  "as_python JUndefined = None"
| "as_python JNull = None"
| "as_python (JObject kvs) = Some \<lparr>environment = as_pyenv (field kvs ''environment'')\<rparr>"
| "as_python v = Some \<lparr>environment = NoEnv\<rparr>"

fun as_port :: "jsval \<Rightarrow> port_decl option" where
  "as_port (JObject kvs) =
     do {
       e \<leftarrow> as_key (field kvs ''envVar'');
       p \<leftarrow> as_number (field kvs ''port'');
       Some \<lparr>port_type = as_text (field kvs ''type''), port_envVar = e, port = p\<rparr>
     }"
| "as_port v = None"

fun as_ports :: "jsval \<Rightarrow> port_decl list option option" where
  "as_ports (JArray xs) = map_option Some (those (map as_port xs))"
| "as_ports v = (if truthy v then None else Some None)"

fun as_option :: "jsval \<Rightarrow> option_decl option" where
  "as_option (JObject kvs) =
     do {
       e \<leftarrow> as_string (field kvs ''envVar'');
       d \<leftarrow> as_string (field kvs ''default'');
       Some \<lparr>option_envVar = e, option_default = d,
             option_description = as_text (field kvs ''description'')\<rparr>
     }"
| "as_option v = None"

fun as_options :: "jsval \<Rightarrow> option_decl list option option" where
  "as_options (JArray xs) = map_option Some (those (map as_option xs))"
| "as_options v = (if truthy v then None else Some None)"

fun asConfig :: "jsval \<Rightarrow> Config option" where
  "asConfig (JObject kvs) =
     do {
       i \<leftarrow> as_string (field kvs ''appId'');
       s \<leftarrow> as_string (field kvs ''source'');
       sc \<leftarrow> as_scripts (field kvs ''scripts'');
       r \<leftarrow> as_string (field kvs ''appRepository'');
       v \<leftarrow> as_string (field kvs ''appVersion'');
       d \<leftarrow> as_string (field kvs ''appDirectory'');
       ps \<leftarrow> as_ports (field kvs ''ports'');
       os \<leftarrow> as_options (field kvs ''additionalOptions'');
       Some \<lparr>appId = i, source = s, scripts = sc,
             autoInitialize = truthy (field kvs ''autoInitialize''),
             autoActivateEnvBeforeEachStep = truthy (field kvs ''autoActivateEnvBeforeEachStep''),
             appRepository = r, appVersion = v, appDirectory = d,
             python = as_python (field kvs ''python''), ports = ps,
             additionalOptions = os\<rparr>
     }"
| "asConfig v = None"

section \<open>setEnvVars\<close>

text \<open>
  \<^verbatim>\<open>name in envVars\<close>: \<^verbatim>\<open>envVars\<close> is an object literal, so the answer is true for its own
  keys and for the names it inherits.
\<close>

definition in_env :: "string \<Rightarrow> ProcessEnv \<Rightarrow> bool" where
  "in_env name envVars = (envVars name \<noteq> None \<or> name \<in> set objectPrototypeProps)"

fun addPorts :: "ProcessEnv \<Rightarrow> port_decl list \<Rightarrow> ProcessEnv" where
  "addPorts envVars [] = envVars"
| "addPorts envVars (opt # opts) =
     addPorts
       (if \<not> in_env (port_envVar opt) envVars
        then envVars(port_envVar opt \<mapsto> number_toString (port opt))
        else envVars)
       opts"

fun addOptions :: "ProcessEnv \<Rightarrow> option_decl list \<Rightarrow> ProcessEnv" where
  "addOptions envVars [] = envVars"
| "addOptions envVars (opt # opts) =
     addOptions
       (if \<not> in_env (option_envVar opt) envVars
        then envVars(option_envVar opt \<mapsto> option_default opt)
        else envVars)
       opts"

text \<open>
  The object literal lists the three fixed keys first and spreads \<^verbatim>\<open>process.env\<close> after
  them: a later entry of a literal replaces an earlier one with the same key.
\<close>

definition seedEnv :: "Config \<Rightarrow> ProcessEnv \<Rightarrow> ProcessEnv" where
  "seedEnv config penv =
     [''APP_REPO'' \<mapsto> appRepository config,
      ''APP_VERSION'' \<mapsto> appVersion config,
      ''APP_DIRECTORY'' \<mapsto> appDirectory config] ++ penv"

definition setEnvVars :: "Config \<Rightarrow> ProcessEnv \<Rightarrow> ProcessEnv" where
  "setEnvVars config penv =
     (let envVars = seedEnv config penv;
          envVars = (case ports config of None \<Rightarrow> envVars | Some ps \<Rightarrow> addPorts envVars ps);
          envVars = (case additionalOptions config of
                       None \<Rightarrow> envVars
                     | Some os \<Rightarrow> addOptions envVars os)
      in envVars)"

section \<open>getActivationCommand and runScript\<close>

definition python_environment :: "Config \<Rightarrow> pyenv option" where
  "python_environment config = map_option environment (python config)"

definition getActivationCommand :: "Config \<Rightarrow> string" where
  "getActivationCommand config =
     (if python_environment config = Some Venv
      then ''source '' @ appDirectory config @ ''/venv/bin/activate && ''
      else if python_environment config = Some Conda
      then ''conda activate '' @ appId config @ '' && ''
      else [])"

definition endsWith :: "string \<Rightarrow> string \<Rightarrow> bool" where
  "endsWith s suffix_s =
     (length suffix_s \<le> length s \<and> drop (length s - length suffix_s) s = suffix_s)"

type_synonym result = "(error + unit) \<times> event list"

definition and_then :: "result \<Rightarrow> (event list \<Rightarrow> result) \<Rightarrow> result" where
  "and_then r f = (case r of (Inl e, tr) \<Rightarrow> (Inl e, tr) | (Inr u, tr) \<Rightarrow> f tr)"

definition do_chmod :: "system \<Rightarrow> string \<Rightarrow> string \<Rightarrow> event list \<Rightarrow> result" where
  "do_chmod sys file mode tr =
     (let ok = chmodSync sys tr file mode
      in (if ok then Inr () else Inl (ChmodFailed file), tr @ [Chmod file mode ok]))"

definition do_exec :: "system \<Rightarrow> exec_call \<Rightarrow> event list \<Rightarrow> result" where
  "do_exec sys call tr =
     (let ok = execSync sys tr call
      in (if ok then Inr () else Inl (ExecFailed (exec_command call)), tr @ [Exec call ok]))"

definition script_call :: "string \<Rightarrow> ProcessEnv \<Rightarrow> string \<Rightarrow> exec_call" where
  "script_call fullCommand env_map baseDir =
     \<lparr>exec_command = fullCommand, exec_shell = Some ''/bin/bash'',
      exec_env = Some env_map, exec_cwd = Some baseDir\<rparr>"

definition runScript ::
  "system \<Rightarrow> string \<Rightarrow> Config \<Rightarrow> ProcessEnv \<Rightarrow> string \<Rightarrow> event list \<Rightarrow> result" where
  "runScript sys script config env_map baseDir tr =
     (let activationCommand =
            (if autoActivateEnvBeforeEachStep config then getActivationCommand config else [])
      in and_then
           (if endsWith script ''.sh''
            then do_chmod sys (path_join sys baseDir script) ''755'' tr
            else (Inr (), tr))
           (do_exec sys (script_call (activationCommand @ script) env_map baseDir)))"

section \<open>initializeRepo and setupPythonEnvironment\<close>

definition dquote :: string where
  "dquote = [CHR 0x22]"

definition default_call :: "string \<Rightarrow> exec_call" where
  "default_call cmd =
     \<lparr>exec_command = cmd, exec_shell = None, exec_env = None, exec_cwd = None\<rparr>"

definition clone_command :: "Config \<Rightarrow> string" where
  "clone_command config =
     ''git clone '' @ appRepository config @ '' '' @ dquote @ appDirectory config @ dquote"

definition checkout_command :: "Config \<Rightarrow> string" where
  "checkout_command config =
     ''cd '' @ dquote @ appDirectory config @ dquote @ '' && git checkout ''
       @ appVersion config"

definition initializeRepo :: "system \<Rightarrow> Config \<Rightarrow> event list \<Rightarrow> result" where
  "initializeRepo sys config tr =
     and_then (do_exec sys (default_call (clone_command config)) tr)
              (do_exec sys (default_call (checkout_command config)))"

definition venv_command :: "Config \<Rightarrow> string" where
  "venv_command config =
     ''python3 -m venv --system-site-packages '' @ dquote @ appDirectory config
       @ ''/venv'' @ dquote"

definition conda_command :: "Config \<Rightarrow> string" where
  "conda_command config = ''conda create -n '' @ appId config @ '' python=3.8 -y''"

definition setupPythonEnvironment :: "system \<Rightarrow> Config \<Rightarrow> event list \<Rightarrow> result" where
  "setupPythonEnvironment sys config tr =
     (if python_environment config = Some Venv
      then do_exec sys (default_call (venv_command config)) tr
      else if python_environment config = Some Conda
      then do_exec sys (default_call (conda_command config)) tr
      else (Inr (), tr))"

section \<open>main\<close>

text \<open>The loop over \<^verbatim>\<open>config.scripts.setup\<close>: a throw of \<^verbatim>\<open>runScript\<close> leaves the loop.\<close>

fun runSetupScripts ::
  "system \<Rightarrow> string list \<Rightarrow> Config \<Rightarrow> ProcessEnv \<Rightarrow> string \<Rightarrow> event list \<Rightarrow> result" where
  "runSetupScripts sys [] config env_map baseDir tr = (Inr (), tr)"
| "runSetupScripts sys (setupScript # rest) config env_map baseDir tr =
     and_then (runScript sys setupScript config env_map baseDir tr)
              (runSetupScripts sys rest config env_map baseDir)"

text \<open>The part of the try block after the configuration is loaded.\<close>

definition run_command :: "system \<Rightarrow> string \<Rightarrow> string \<Rightarrow> Config \<Rightarrow> result" where
  "run_command sys command baseDir config =
     (let env_map = setEnvVars config (process_env sys)
      in if command = ''install''
         then and_then
                (if autoInitialize config
                 then and_then (initializeRepo sys config [])
                               (setupPythonEnvironment sys config)
                 else (Inr (), []))
                (runSetupScripts sys (scripts_setup (scripts config)) config env_map baseDir)
         else if command = ''start''
         then runScript sys (scripts_start (scripts config)) config env_map baseDir []
         else (Inr (), []))"

definition argv_at :: "string list \<Rightarrow> nat \<Rightarrow> string option" where
  "argv_at argv i = (if i < length argv then Some (argv ! i) else None)"

text \<open>
  The try block. \<open>None\<close>: the parsed value passed \<^verbatim>\<open>readConfig\<close> and is not a member of
  the interface.
\<close>

definition main_try :: "system \<Rightarrow> string list \<Rightarrow> result option" where
  "main_try sys argv =
     (case argv_at argv 2 of
        None \<Rightarrow>
          Some (Inl (Error (''Please provide a valid command: '' @ dquote @ ''install''
                             @ dquote @ '' or '' @ dquote @ ''start'' @ dquote)), [])
      | Some command \<Rightarrow>
          if command = [] \<or> command \<notin> set [''install'', ''start'']
          then Some (Inl (Error (''Please provide a valid command: '' @ dquote @ ''install''
                                  @ dquote @ '' or '' @ dquote @ ''start'' @ dquote)), [])
          else
            (case argv_at argv 3 of
               None \<Rightarrow>
                 Some (Inl (Error ''Please provide a directory as a command line argument.''),
                       [])
             | Some baseDir \<Rightarrow>
                 if baseDir = []
                 then Some (Inl (Error
                        ''Please provide a directory as a command line argument.''), [])
                 else if \<not> existsSync sys baseDir
                 then Some (Inl (Error (''Specified directory does not exist: '' @ baseDir)),
                            [])
                 else
                   (case readConfig sys baseDir of
                      Inl e \<Rightarrow> Some (Inl e, [])
                    | Inr v \<Rightarrow>
                        (case asConfig v of
                           None \<Rightarrow> None
                         | Some config \<Rightarrow> Some (run_command sys command baseDir config)))))"

text \<open>
  The catch block ends the process with status 1; a try block that completes lets the
  process end with status 0. The result is the exit status and what was done.
\<close>

definition exit_status :: "error + unit \<Rightarrow> nat" where
  "exit_status r = (case r of Inl e \<Rightarrow> 1 | Inr u \<Rightarrow> 0)"

definition main :: "system \<Rightarrow> string list \<Rightarrow> (nat \<times> event list) option" where
  "main sys argv = map_option (\<lambda>(r, tr). (exit_status r, tr)) (main_try sys argv)"

section \<open>Observations on a run\<close>

text \<open>The prefix that \<^verbatim>\<open>runScript\<close> computes first and puts before the script.\<close>

definition activation_prefix :: "Config \<Rightarrow> string" where
  "activation_prefix config =
     (if autoActivateEnvBeforeEachStep config then getActivationCommand config else [])"

text \<open>The child processes of a run, in order.\<close>

fun exec_calls :: "event list \<Rightarrow> exec_call list" where
  "exec_calls [] = []"
| "exec_calls (Chmod file mode ok # evs) = exec_calls evs"
| "exec_calls (Exec call ok # evs) = call # exec_calls evs"

fun failed_exec :: "event \<Rightarrow> bool" where
  "failed_exec (Exec call ok) = (\<not> ok)"
| "failed_exec (Chmod file mode ok) = False"


text \<open>
  A step of the program only adds to what was done before it; every event it adds
  satisfies \<open>P\<close>; a child process that failed is the last thing it did, and then the step
  has thrown.
\<close>

definition behaves :: "(event \<Rightarrow> bool) \<Rightarrow> (event list \<Rightarrow> result) \<Rightarrow> bool" where
  "behaves P f =
     (\<forall>tr. \<exists>new. snd (f tr) = tr @ new \<and> (\<forall>ev \<in> set new. P ev) \<and>
        (\<forall>ev \<in> set (butlast new). \<not> failed_exec ev) \<and>
        (\<forall>u. fst (f tr) = Inr u \<longrightarrow> (\<forall>ev \<in> set new. \<not> failed_exec ev)))"

text \<open>The two ways in which the program starts a child process.\<close>

definition script_runner_call :: "Config \<Rightarrow> ProcessEnv \<Rightarrow> string \<Rightarrow> exec_call \<Rightarrow> bool" where
  "script_runner_call config env_map baseDir call =
     (exec_shell call = Some ''/bin/bash'' \<and> exec_env call = Some env_map \<and>
      exec_cwd call = Some baseDir \<and>
      exec_command call \<in>
        (\<lambda>script. activation_prefix config @ script) `
          set (scripts_start (scripts config) # scripts_setup (scripts config)))"

definition initializer_call :: "Config \<Rightarrow> exec_call \<Rightarrow> bool" where
  "initializer_call config call =
     (exec_shell call = None \<and> exec_env call = None \<and> exec_cwd call = None \<and>
      exec_command call \<in>
        {clone_command config, checkout_command config, venv_command config,
         conda_command config})"

text \<open>
  An invocation that reaches the command: a known command, a base directory that
  exists, and a configuration file that \<^verbatim>\<open>readConfig\<close> accepts and that is the
  configuration \<open>config\<close>.
\<close>

definition valid_invocation ::
  "system \<Rightarrow> string list \<Rightarrow> string \<Rightarrow> string \<Rightarrow> Config \<Rightarrow> bool" where
  "valid_invocation sys argv command baseDir config =
     (argv_at argv 2 = Some command \<and> command \<in> set [''install'', ''start''] \<and>
      argv_at argv 3 = Some baseDir \<and> baseDir \<noteq> [] \<and> existsSync sys baseDir \<and>
      (case readConfig sys baseDir of Inl e \<Rightarrow> None | Inr v \<Rightarrow> asConfig v) = Some config)"

section \<open>Sample inputs\<close>

definition demo_config :: "bool \<Rightarrow> Config" where
  "demo_config init =
     \<lparr>appId = ''demo'', source = ''git'',
      scripts = \<lparr>scripts_setup = [''a.sh'', ''b.sh''], scripts_start = ''run.sh''\<rparr>,
      autoInitialize = init, autoActivateEnvBeforeEachStep = True,
      appRepository = ''https://example.org/demo.git'', appVersion = ''v1'',
      appDirectory = ''demo'',
      python = Some \<lparr>environment = Venv\<rparr>,
      ports = Some [\<lparr>port_type = ''http'', port_envVar = ''PORT'', port = Abs_safe_integer 8080\<rparr>],
      additionalOptions =
        Some [\<lparr>option_envVar = ''MODE'', option_default = ''fast'',
               option_description = ''run mode''\<rparr>]\<rparr>"

definition demo_yaml :: "bool \<Rightarrow> jsval" where
  "demo_yaml init =
     JObject
       [(''appId'', JStr ''demo''), (''source'', JStr ''git''),
        (''scripts'',
           JObject [(''setup'', JArray [JStr ''a.sh'', JStr ''b.sh'']),
                    (''start'', JStr ''run.sh'')]),
        (''autoInitialize'', JBool init), (''autoActivateEnvBeforeEachStep'', JBool True),
        (''appRepository'', JStr ''https://example.org/demo.git''),
        (''appVersion'', JStr ''v1''), (''appDirectory'', JStr ''demo''),
        (''python'', JObject [(''environment'', JStr ''venv'')]),
        (''ports'',
           JArray [JObject [(''type'', JStr ''http''), (''envVar'', JStr ''PORT''),
                            (''port'', JNum 8080)]]),
        (''additionalOptions'',
           JArray [JObject [(''envVar'', JStr ''MODE''), (''default'', JStr ''fast''),
                            (''description'', JStr ''run mode'')]])]"

text \<open>
  A document with the required fields only, null \<^verbatim>\<open>python\<close> and \<^verbatim>\<open>additionalOptions\<close>
  sections, and a port whose \<^verbatim>\<open>envVar\<close> is a number and which has no \<^verbatim>\<open>type\<close>.
\<close>

definition minimal_yaml :: jsval where
  "minimal_yaml =
     JObject
       [(''appId'', JStr ''demo''), (''source'', JStr ''git''),
        (''scripts'', JObject [(''setup'', JArray []), (''start'', JStr ''run.sh'')]),
        (''appRepository'', JStr ''https://example.org/demo.git''),
        (''appVersion'', JStr ''v1''), (''appDirectory'', JStr ''demo''),
        (''python'', JNull),
        (''ports'', JArray [JObject [(''envVar'', JNum 8080), (''port'', JNum 80)]]),
        (''additionalOptions'', JNull)]"

text \<open>A document without \<^verbatim>\<open>source\<close> and \<^verbatim>\<open>appVersion\<close>.\<close>

definition incomplete_yaml :: "(string \<times> jsval) list" where
  "incomplete_yaml =
     [(''appId'', JStr ''demo''),
      (''scripts'', JObject [(''setup'', JArray [JStr ''a.sh'']), (''start'', JStr ''run.sh'')]),
      (''appRepository'', JStr ''https://example.org/demo.git''),
      (''appDirectory'', JStr ''demo'')]"


text \<open>A configuration whose only port is named like a member of \<^verbatim>\<open>Object.prototype\<close>.\<close>

definition constructor_config :: Config where
  "constructor_config =
     (demo_config False)
       \<lparr>ports :=
          Some [\<lparr>port_type = ''http'', port_envVar = ''constructor'',
                 port = Abs_safe_integer 8080\<rparr>],
        additionalOptions := None\<rparr>"

text \<open>
  A system whose configuration file parses to \<open>v\<close>, with the inherited environment
  \<open>penv\<close>; \<open>chmod_ok\<close> and \<open>exec_ok\<close> say which files can be made executable and which
  commands exit with status 0.
\<close>

definition demo_system ::
  "jsval \<Rightarrow> ProcessEnv \<Rightarrow> (string \<Rightarrow> bool) \<Rightarrow> (string \<Rightarrow> bool) \<Rightarrow> system" where
  "demo_system v penv chmod_ok exec_ok =
     \<lparr>existsSync = (\<lambda>p. True), readFileSync = (\<lambda>p. Inr ''appId: demo''),
      parse = (\<lambda>content. Inr v), path_join = (\<lambda>a b. a @ ''/'' @ b),
      process_env = penv,
      chmodSync = (\<lambda>tr file mode. chmod_ok file),
      execSync = (\<lambda>tr call. exec_ok (exec_command call))\<rparr>"

definition demo_argv :: "string \<Rightarrow> string list" where
  "demo_argv command = [''deno'', ''labkit.ts'', command, ''/srv/demo'']"

section \<open>Basic facts\<close>

lemma endsWith_iff: "endsWith s t \<longleftrightarrow> (\<exists>pre. s = pre @ t)"
proof
  assume "endsWith s t"
  then have "s = take (length s - length t) s @ t"
    by (metis append_take_drop_id endsWith_def)
  then show "\<exists>pre. s = pre @ t" ..
next
  assume "\<exists>pre. s = pre @ t"
  then show "endsWith s t"
    by (auto simp: endsWith_def)
qed

lemma and_then_Inl [simp]: "and_then (Inl e, tr) f = (Inl e, tr)"
  by (simp add: and_then_def)

lemma and_then_Inr [simp]: "and_then (Inr u, tr) f = f tr"
  by (simp add: and_then_def)

lemma exec_calls_append [simp]: "exec_calls (xs @ ys) = exec_calls xs @ exec_calls ys"
  by (induction xs rule: exec_calls.induct) simp_all

subsection \<open>The environment: a key that is in the object is never written again\<close>

lemma addPorts_keeps: "in_env k e \<Longrightarrow> addPorts e ps k = e k"
  by (induction ps arbitrary: e) (auto simp: in_env_def)

lemma addOptions_keeps: "in_env k e \<Longrightarrow> addOptions e os k = e k"
  by (induction os arbitrary: e) (auto simp: in_env_def)

lemma addPorts_in_env: "in_env k e \<Longrightarrow> in_env k (addPorts e ps)"
  by (induction ps arbitrary: e) (auto simp: in_env_def)

lemma setEnvVars_keeps:
  "in_env k (seedEnv config penv) \<Longrightarrow> setEnvVars config penv k = seedEnv config penv k"
  by (simp add: setEnvVars_def Let_def addPorts_keeps addOptions_keeps addPorts_in_env
      split: option.splits)

text \<open>
  A key that is not in the object when the loops start gets the value of the first
  declaration that names it.
\<close>

lemma addPorts_absent:
  "\<not> in_env k e \<Longrightarrow>
   addPorts e ps k =
     map_option (\<lambda>p. number_toString (port p)) (find (\<lambda>p. port_envVar p = k) ps)"
proof (induction ps arbitrary: e)
  case Nil
  then show ?case by (simp add: in_env_def)
next
  case (Cons p ps)
  show ?case
  proof (cases "port_envVar p = k")
    case True
    with Cons.prems have "in_env k (e(k \<mapsto> number_toString (port p)))"
      by (simp add: in_env_def)
    with True Cons.prems show ?thesis
      by (simp add: addPorts_keeps)
  next
    case False
    with Cons.prems have "\<not> in_env k (if \<not> in_env (port_envVar p) e
        then e(port_envVar p \<mapsto> number_toString (port p)) else e)"
      by (simp add: in_env_def)
    from Cons.IH [OF this] False show ?thesis by simp
  qed
qed

lemma addOptions_absent:
  "\<not> in_env k e \<Longrightarrow>
   addOptions e os k = map_option option_default (find (\<lambda>p. option_envVar p = k) os)"
proof (induction os arbitrary: e)
  case Nil
  then show ?case by (simp add: in_env_def)
next
  case (Cons p os)
  show ?case
  proof (cases "option_envVar p = k")
    case True
    with Cons.prems have "in_env k (e(k \<mapsto> option_default p))"
      by (simp add: in_env_def)
    with True Cons.prems show ?thesis
      by (simp add: addOptions_keeps)
  next
    case False
    with Cons.prems have "\<not> in_env k (if \<not> in_env (option_envVar p) e
        then e(option_envVar p \<mapsto> option_default p) else e)"
      by (simp add: in_env_def)
    from Cons.IH [OF this] False show ?thesis by simp
  qed
qed

section \<open>The environment mapping\<close>

text \<open>
  Claim C1, as amended. Each of the three fixed keys \<^verbatim>\<open>APP_REPO\<close>, \<^verbatim>\<open>APP_VERSION\<close> and
  \<^verbatim>\<open>APP_DIRECTORY\<close> is always defined in the built mapping; its value is the inherited
  one when the inherited process environment has an entry of that name, and the
  configuration's \<^verbatim>\<open>appRepository\<close>, \<^verbatim>\<open>appVersion\<close> or \<^verbatim>\<open>appDirectory\<close> only when it has
  none: the inherited entry takes precedence, and no declared port or option changes
  any of the three.
\<close>

theorem setEnvVars_fixed_keys:
  "setEnvVars config penv ''APP_REPO'' =
     Some (case penv ''APP_REPO'' of Some v \<Rightarrow> v | None \<Rightarrow> appRepository config) \<and>
   setEnvVars config penv ''APP_VERSION'' =
     Some (case penv ''APP_VERSION'' of Some v \<Rightarrow> v | None \<Rightarrow> appVersion config) \<and>
   setEnvVars config penv ''APP_DIRECTORY'' =
     Some (case penv ''APP_DIRECTORY'' of Some v \<Rightarrow> v | None \<Rightarrow> appDirectory config)"
proof -
  have "seedEnv config penv ''APP_REPO'' =
       Some (case penv ''APP_REPO'' of Some v \<Rightarrow> v | None \<Rightarrow> appRepository config)"
     "seedEnv config penv ''APP_VERSION'' =
       Some (case penv ''APP_VERSION'' of Some v \<Rightarrow> v | None \<Rightarrow> appVersion config)"
     "seedEnv config penv ''APP_DIRECTORY'' =
       Some (case penv ''APP_DIRECTORY'' of Some v \<Rightarrow> v | None \<Rightarrow> appDirectory config)"
    by (simp_all add: seedEnv_def map_add_def split: option.splits)
  then show ?thesis
    by (simp add: setEnvVars_keeps in_env_def)
qed

theorem setEnvVars_fixed_keys_witness:
  "setEnvVars (demo_config False) [''APP_REPO'' \<mapsto> ''inherited''] ''APP_REPO''
     = Some ''inherited'' \<and>
   setEnvVars (demo_config False) [''APP_REPO'' \<mapsto> ''inherited''] ''APP_VERSION''
     = Some ''v1'' \<and>
   setEnvVars (demo_config False) [''APP_REPO'' \<mapsto> ''inherited''] ''APP_DIRECTORY''
     = Some ''demo''"
  using setEnvVars_fixed_keys [of "demo_config False" "[''APP_REPO'' \<mapsto> ''inherited'']"]
  by (simp add: demo_config_def)

text \<open>
  Claim C1 as it is written fails: with \<^verbatim>\<open>APP_REPO=inherited\<close> in the process environment
  the built mapping keeps \<^verbatim>\<open>inherited\<close>, not the configuration's repository.
\<close>

theorem inherited_APP_REPO_wins:
  "setEnvVars (demo_config False) [''APP_REPO'' \<mapsto> ''inherited''] ''APP_REPO''
     \<noteq> Some (appRepository (demo_config False))"
  by (simp add: setEnvVars_keeps in_env_def seedEnv_def demo_config_def)

text \<open>
  Claim C3 at a port named \<^verbatim>\<open>constructor\<close>, with an empty inherited environment: the name
  is absent from the seeded object, and it is absent from the built mapping too, where
  the claim wants \<^verbatim>\<open>constructor=8080\<close>. The test \<^verbatim>\<open>option.envVar in envVars\<close> is true for
  every name that an object inherits from \<^verbatim>\<open>Object.prototype\<close>.
\<close>

theorem constructor_port_not_set:
  "seedEnv constructor_config Map.empty ''constructor'' = None \<and>
   setEnvVars constructor_config Map.empty ''constructor'' = None"
  by (simp add: setEnvVars_def constructor_config_def demo_config_def seedEnv_def in_env_def
      objectPrototypeProps_def)

text \<open>
  What the loops of \<^verbatim>\<open>setEnvVars\<close> do for every other name: a key of the seeded object
  keeps its value; a name that is neither such a key nor inherited gets the number of
  the first port that declares it, as a string, else the default of the first option
  that declares it.
\<close>

lemma setEnvVars_declared:
  assumes "\<not> in_env k (seedEnv config penv)"
  shows "setEnvVars config penv k =
     (case find (\<lambda>p. port_envVar p = k) (case ports config of None \<Rightarrow> [] | Some ps \<Rightarrow> ps) of
        Some p \<Rightarrow> Some (number_toString (port p))
      | None \<Rightarrow>
          map_option option_default
            (find (\<lambda>p. option_envVar p = k)
               (case additionalOptions config of None \<Rightarrow> [] | Some os \<Rightarrow> os)))"
proof -
  let ?seed = "seedEnv config penv"
  let ?ps = "case ports config of None \<Rightarrow> [] | Some ps \<Rightarrow> ps"
  let ?os = "case additionalOptions config of None \<Rightarrow> [] | Some os \<Rightarrow> os"
  have eq: "setEnvVars config penv = addOptions (addPorts ?seed ?ps) ?os"
    by (simp add: setEnvVars_def Let_def split: option.splits)
  show ?thesis
  proof (cases "find (\<lambda>p. port_envVar p = k) ?ps")
    case None
    then have "addPorts ?seed ?ps k = None"
      using assms by (simp add: addPorts_absent)
    moreover have "k \<notin> set objectPrototypeProps"
      using assms by (simp add: in_env_def)
    ultimately have "\<not> in_env k (addPorts ?seed ?ps)"
      by (simp add: in_env_def)
    then show ?thesis
      using None by (simp add: eq addOptions_absent)
  next
    case (Some p)
    then have "addPorts ?seed ?ps k = Some (number_toString (port p))"
      using assms by (simp add: addPorts_absent)
    then have "in_env k (addPorts ?seed ?ps)"
      by (simp add: in_env_def)
    then show ?thesis
      using Some \<open>addPorts ?seed ?ps k = Some (number_toString (port p))\<close>
      by (simp add: eq addOptions_keeps)
  qed
qed

lemma setEnvVars_demo_port:
  "setEnvVars (demo_config False) Map.empty ''PORT'' = Some ''8080'' \<and>
   setEnvVars (demo_config False) [''PORT'' \<mapsto> ''3000''] ''PORT'' = Some ''3000'' \<and>
   setEnvVars (demo_config False) Map.empty ''MODE'' = Some ''fast''"
  by (simp add: setEnvVars_def demo_config_def seedEnv_def in_env_def objectPrototypeProps_def
      number_toString_def int_toString_def Abs_safe_integer_inverse nat_toString.simps)

text \<open>
  The built mapping always defines the three fixed keys, and every declared name that
  is not one of the inherited ones.
\<close>

lemma setEnvVars_fixed_defined:
  "setEnvVars config penv ''APP_REPO'' \<noteq> None \<and>
   setEnvVars config penv ''APP_VERSION'' \<noteq> None \<and>
   setEnvVars config penv ''APP_DIRECTORY'' \<noteq> None"
proof -
  have "seedEnv config penv ''APP_REPO'' \<noteq> None"
    "seedEnv config penv ''APP_VERSION'' \<noteq> None"
    "seedEnv config penv ''APP_DIRECTORY'' \<noteq> None"
    by (simp_all add: seedEnv_def map_add_def split: option.splits)
  then show ?thesis
    by (simp add: setEnvVars_keeps in_env_def)
qed

lemma setEnvVars_port_defined:
  assumes "p \<in> set (case ports config of None \<Rightarrow> [] | Some ps \<Rightarrow> ps)"
    and "port_envVar p \<notin> set objectPrototypeProps"
  shows "setEnvVars config penv (port_envVar p) \<noteq> None"
proof (cases "in_env (port_envVar p) (seedEnv config penv)")
  case True
  with assms(2) have "seedEnv config penv (port_envVar p) \<noteq> None"
    by (simp add: in_env_def)
  with True show ?thesis
    by (simp add: setEnvVars_keeps)
next
  case False
  from assms(1) have "find (\<lambda>q. port_envVar q = port_envVar p)
      (case ports config of None \<Rightarrow> [] | Some ps \<Rightarrow> ps) \<noteq> None"
    by (auto simp: find_None_iff)
  with False show ?thesis
    by (auto simp: setEnvVars_declared)
qed

lemma setEnvVars_option_defined:
  assumes "p \<in> set (case additionalOptions config of None \<Rightarrow> [] | Some os \<Rightarrow> os)"
    and "option_envVar p \<notin> set objectPrototypeProps"
  shows "setEnvVars config penv (option_envVar p) \<noteq> None"
proof (cases "in_env (option_envVar p) (seedEnv config penv)")
  case True
  with assms(2) have "seedEnv config penv (option_envVar p) \<noteq> None"
    by (simp add: in_env_def)
  with True show ?thesis
    by (simp add: setEnvVars_keeps)
next
  case False
  from assms(1) have "find (\<lambda>q. option_envVar q = option_envVar p)
      (case additionalOptions config of None \<Rightarrow> [] | Some os \<Rightarrow> os) \<noteq> None"
    by (auto simp: find_None_iff)
  with False show ?thesis
    by (auto simp: setEnvVars_declared split: option.splits)
qed

section \<open>The activation command\<close>

text \<open>
  Claim C8. For the Python environment kind \<^verbatim>\<open>venv\<close> the activation command is a shell
  \<^verbatim>\<open>source\<close> of \<^verbatim>\<open><appDirectory>/venv/bin/activate\<close>; for \<^verbatim>\<open>conda\<close> it is
  \<^verbatim>\<open>conda activate <appId>\<close>; each ends in the separator \<^verbatim>\<open> && \<close>, so that the script can
  follow it. For \<^verbatim>\<open>none\<close> and for a configuration without a \<^verbatim>\<open>python\<close> section it is the
  empty prefix.
\<close>

theorem getActivationCommand_kinds:
  "getActivationCommand config =
     (case python config of
        None \<Rightarrow> []
      | Some p \<Rightarrow>
          (case environment p of
             Venv \<Rightarrow> ''source '' @ appDirectory config @ ''/venv/bin/activate && ''
           | Conda \<Rightarrow> ''conda activate '' @ appId config @ '' && ''
           | NoEnv \<Rightarrow> []))"
  by (simp add: getActivationCommand_def python_environment_def
      split: option.splits pyenv.splits)

theorem getActivationCommand_kinds_witness:
  "getActivationCommand (demo_config False) = ''source demo/venv/bin/activate && '' \<and>
   getActivationCommand ((demo_config False)\<lparr>python := Some \<lparr>environment = Conda\<rparr>\<rparr>) =
     ''conda activate demo && '' \<and>
   getActivationCommand ((demo_config False)\<lparr>python := Some \<lparr>environment = NoEnv\<rparr>\<rparr>) = [] \<and>
   getActivationCommand ((demo_config False)\<lparr>python := None\<rparr>) = []"
  using getActivationCommand_kinds [of "demo_config False"]
    getActivationCommand_kinds
      [of "(demo_config False)\<lparr>python := Some \<lparr>environment = Conda\<rparr>\<rparr>"]
    getActivationCommand_kinds
      [of "(demo_config False)\<lparr>python := Some \<lparr>environment = NoEnv\<rparr>\<rparr>"]
    getActivationCommand_kinds [of "(demo_config False)\<lparr>python := None\<rparr>"]
  by (simp add: demo_config_def)

section \<open>The configuration loader\<close>

text \<open>The sample documents as members of the interface.\<close>

lemma asConfig_demo_yaml: "asConfig (demo_yaml init) = Some (demo_config init)"
  by (simp add: demo_yaml_def demo_config_def field_def)

lemma asConfig_minimal_yaml:
  "asConfig minimal_yaml =
     Some \<lparr>appId = ''demo'', source = ''git'',
           scripts = \<lparr>scripts_setup = [], scripts_start = ''run.sh''\<rparr>,
           autoInitialize = False, autoActivateEnvBeforeEachStep = False,
           appRepository = ''https://example.org/demo.git'', appVersion = ''v1'',
           appDirectory = ''demo'', python = None,
           ports = Some [\<lparr>port_type = [], port_envVar = ''8080'',
                          port = Abs_safe_integer 80\<rparr>],
           additionalOptions = None\<rparr>"
  by (simp add: minimal_yaml_def field_def number_toString_def int_toString_def
      Abs_safe_integer_inverse nat_toString.simps)

lemma checkRequired_first_missing:
  assumes "find (\<lambda>p. p \<notin> fst ` set kvs) props = Some missing"
    and "set props \<inter> set objectPrototypeProps = {}"
  shows "checkRequired props (JObject kvs) =
           Inl (Error (''Missing required property in config: '' @ missing))"
  using assms by (induction props) (auto split: if_splits)


lemma requiredProps_not_inherited: "set requiredProps \<inter> set objectPrototypeProps = {}"
  by (simp add: requiredProps_def objectPrototypeProps_def)

text \<open>A parsed value that is not a mapping never passes the validation.\<close>

lemma validateConfig_not_mapping:
  "(\<exists>kvs. v = JObject kvs) \<or> (\<exists>e. validateConfig v = Inl e)"
  by (cases v) (simp_all add: validateConfig_def requiredProps_def)

lemma readConfig_parsed:
  assumes "existsSync sys (path_join sys baseDir ''openlab.yaml'')"
    and "readFileSync sys (path_join sys baseDir ''openlab.yaml'') = Inr content"
    and "parse sys content = Inr v"
  shows "readConfig sys baseDir = rethrow (path_join sys baseDir ''openlab.yaml'') (validateConfig v)"
  using assms by (simp add: readConfig_def Let_def)

lemma main_readConfig_fails:
  assumes "readConfig sys baseDir = Inl e" and "argv_at argv 3 = Some baseDir"
  shows "main sys argv = Some (1, [])"
  using assms
  by (auto simp: main_def main_try_def exit_status_def split: option.splits)

text \<open>
  A parsed mapping that lacks one of the six required fields: \<^verbatim>\<open>readConfig\<close> fails with
  the error whose message names the first field of \<^verbatim>\<open>requiredProps\<close> that is missing, and
  an invocation on that base directory ends with status 1 without having spawned a
  child process or changed a file mode.
\<close>

lemma missing_required_property:
  assumes "existsSync sys (path_join sys baseDir ''openlab.yaml'')"
    and "readFileSync sys (path_join sys baseDir ''openlab.yaml'') = Inr content"
    and "parse sys content = Inr (JObject kvs)"
    and "find (\<lambda>p. p \<notin> fst ` set kvs) requiredProps = Some missing"
  shows "readConfig sys baseDir =
           Inl (Error (''Missing required property in config: '' @ missing)) \<and>
         (argv_at argv 3 = Some baseDir \<longrightarrow> main sys argv = Some (1, []))"
proof -
  have "validateConfig (JObject kvs) =
          Inl (Error (''Missing required property in config: '' @ missing))"
    using assms(4)
    by (simp add: validateConfig_def checkRequired_first_missing requiredProps_not_inherited)
  with assms(1-3) have "readConfig sys baseDir =
      Inl (Error (''Missing required property in config: '' @ missing))"
    by (simp add: readConfig_parsed)
  then show ?thesis
    by (simp add: main_readConfig_fails)
qed

lemma missing_required_property_sample:
  "find (\<lambda>p. p \<notin> fst ` set incomplete_yaml) requiredProps = Some ''source'' \<and>
   readConfig (demo_system (JObject incomplete_yaml) Map.empty (\<lambda>f. True) (\<lambda>c. True)) ''/srv/demo''
     = Inl (Error ''Missing required property in config: source'') \<and>
   main (demo_system (JObject incomplete_yaml) Map.empty (\<lambda>f. True) (\<lambda>c. True))
        (demo_argv ''install'') = Some (1, [])"
proof -
  let ?sys = "demo_system (JObject incomplete_yaml) Map.empty (\<lambda>f. True) (\<lambda>c. True)"
  have f: "find (\<lambda>p. p \<notin> fst ` set incomplete_yaml) requiredProps = Some ''source''"
    by (simp add: incomplete_yaml_def requiredProps_def)
  have a: "argv_at (demo_argv ''install'') 3 = Some ''/srv/demo''"
    by (simp add: argv_at_def demo_argv_def)
  show ?thesis
    using missing_required_property [of ?sys "''/srv/demo''" "''appId: demo''" incomplete_yaml
        "''source''" "demo_argv ''install''"] f a
    by (simp add: demo_system_def)
qed

text \<open>
  Claim C4 at a configuration file that holds a scalar (\<^verbatim>\<open>hello\<close>) or is empty (null).
  The document lacks all six required fields, so the claim wants the error that names
  \<^verbatim>\<open>appId\<close>, the first of them. The test \<^verbatim>\<open>prop in config\<close> throws a TypeError on a value
  that is not an object, before the loop can throw its own error. No child process is
  spawned and the status is 1, as the claim says.
\<close>

theorem scalar_document_type_error:
  "readConfig (demo_system (JStr ''hello'') Map.empty (\<lambda>f. True) (\<lambda>c. True)) ''/srv/demo''
     = Inl TypeError \<and>
   readConfig (demo_system JNull Map.empty (\<lambda>f. True) (\<lambda>c. True)) ''/srv/demo''
     = Inl TypeError \<and>
   main (demo_system (JStr ''hello'') Map.empty (\<lambda>f. True) (\<lambda>c. True)) (demo_argv ''install'')
     = Some (1, []) \<and>
   Inl TypeError \<noteq>
     (Inl (Error (''Missing required property in config: '' @ ''appId'')) :: error + jsval)"
  by (simp add: readConfig_def demo_system_def validateConfig_def requiredProps_def
      main_def main_try_def demo_argv_def argv_at_def exit_status_def)



section \<open>Runs of the program\<close>

lemma runScript_unfold:
  "runScript sys script config env_map baseDir tr =
     (if endsWith script ''.sh''
      then (if chmodSync sys tr (path_join sys baseDir script) ''755''
            then do_exec sys (script_call (activation_prefix config @ script) env_map baseDir)
                   (tr @ [Chmod (path_join sys baseDir script) ''755'' True])
            else (Inl (ChmodFailed (path_join sys baseDir script)),
                  tr @ [Chmod (path_join sys baseDir script) ''755'' False]))
      else do_exec sys (script_call (activation_prefix config @ script) env_map baseDir) tr)"
  by (simp add: runScript_def do_chmod_def activation_prefix_def Let_def)

lemma behaves_return: "behaves P (\<lambda>tr. (Inr (), tr))"
  by (simp add: behaves_def)

lemma behaves_do_exec: "(\<And>ok. P (Exec call ok)) \<Longrightarrow> behaves P (do_exec sys call)"
  by (simp add: behaves_def do_exec_def Let_def)

lemma behaves_do_chmod: "(\<And>ok. P (Chmod file mode ok)) \<Longrightarrow> behaves P (do_chmod sys file mode)"
  by (simp add: behaves_def do_chmod_def Let_def)

lemma behaves_if:
  "behaves P f \<Longrightarrow> behaves P g \<Longrightarrow> behaves P (\<lambda>tr. if c then f tr else g tr)"
  by (cases c) simp_all

lemma behaves_and_then:
  assumes f: "behaves P f" and g: "behaves P g"
  shows "behaves P (\<lambda>tr. and_then (f tr) g)"
  unfolding behaves_def
proof
  fix tr
  from f obtain n1 where n1: "snd (f tr) = tr @ n1" "\<forall>ev \<in> set n1. P ev"
      "\<forall>ev \<in> set (butlast n1). \<not> failed_exec ev"
      "\<forall>u. fst (f tr) = Inr u \<longrightarrow> (\<forall>ev \<in> set n1. \<not> failed_exec ev)"
    unfolding behaves_def by blast
  show "\<exists>new. snd (and_then (f tr) g) = tr @ new \<and> (\<forall>ev \<in> set new. P ev) \<and>
        (\<forall>ev \<in> set (butlast new). \<not> failed_exec ev) \<and>
        (\<forall>u. fst (and_then (f tr) g) = Inr u \<longrightarrow> (\<forall>ev \<in> set new. \<not> failed_exec ev))"
  proof (cases "fst (f tr)")
    case (Inl e)
    then have "and_then (f tr) g = f tr"
      by (cases "f tr") simp
    with n1 Inl show ?thesis by auto
  next
    case (Inr u)
    then have eq: "and_then (f tr) g = g (tr @ n1)"
      using n1(1) by (cases "f tr") simp
    from g obtain n2 where n2: "snd (g (tr @ n1)) = (tr @ n1) @ n2" "\<forall>ev \<in> set n2. P ev"
        "\<forall>ev \<in> set (butlast n2). \<not> failed_exec ev"
        "\<forall>u. fst (g (tr @ n1)) = Inr u \<longrightarrow> (\<forall>ev \<in> set n2. \<not> failed_exec ev)"
      unfolding behaves_def by blast
    have ok1: "\<forall>ev \<in> set n1. \<not> failed_exec ev"
      using n1(4) Inr by blast
    have "\<forall>ev \<in> set (butlast (n1 @ n2)). \<not> failed_exec ev"
      using ok1 n2(3) by (auto simp: butlast_append dest: in_set_butlastD)
    with eq n1 n2 ok1 show ?thesis
      by (intro exI [of _ "n1 @ n2"]) auto
  qed
qed

lemma behaves_runScript:
  assumes "\<And>ok. P (Chmod (path_join sys baseDir script) ''755'' ok)"
    and "\<And>ok. P (Exec (script_call (activation_prefix config @ script) env_map baseDir) ok)"
  shows "behaves P (runScript sys script config env_map baseDir)"
proof -
  have eq: "runScript sys script config env_map baseDir =
     (\<lambda>tr. and_then
          (if endsWith script ''.sh''
           then do_chmod sys (path_join sys baseDir script) ''755'' tr else (Inr (), tr))
          (do_exec sys (script_call (activation_prefix config @ script) env_map baseDir)))"
    by (rule ext) (simp add: runScript_def activation_prefix_def Let_def)
  show ?thesis
    unfolding eq using assms
    by (intro behaves_and_then behaves_do_exec behaves_if behaves_return behaves_do_chmod)
qed

lemma behaves_runSetupScripts:
  assumes "\<And>file ok. P (Chmod file ''755'' ok)"
    and "\<And>script ok. script \<in> set ss \<Longrightarrow>
           P (Exec (script_call (activation_prefix config @ script) env_map baseDir) ok)"
  shows "behaves P (runSetupScripts sys ss config env_map baseDir)"
  using assms(2)
proof (induction ss)
  case Nil
  have "runSetupScripts sys [] config env_map baseDir = (\<lambda>tr. (Inr (), tr))"
    by (rule ext) simp
  then show ?case by (simp add: behaves_return)
next
  case (Cons s ss)
  have eq: "runSetupScripts sys (s # ss) config env_map baseDir =
      (\<lambda>tr. and_then (runScript sys s config env_map baseDir tr)
                (runSetupScripts sys ss config env_map baseDir))"
    by (rule ext) simp
  show ?case
    unfolding eq
    by (intro behaves_and_then behaves_runScript Cons.IH assms(1) Cons.prems) simp_all
qed

lemma behaves_initializeRepo:
  assumes "\<And>ok. P (Exec (default_call (clone_command config)) ok)"
    and "\<And>ok. P (Exec (default_call (checkout_command config)) ok)"
  shows "behaves P (initializeRepo sys config)"
proof -
  have eq: "initializeRepo sys config =
      (\<lambda>tr. and_then (do_exec sys (default_call (clone_command config)) tr)
                (do_exec sys (default_call (checkout_command config))))"
    by (rule ext) (simp add: initializeRepo_def)
  show ?thesis
    unfolding eq using assms by (intro behaves_and_then behaves_do_exec)
qed

lemma behaves_setupPythonEnvironment:
  assumes "\<And>ok. P (Exec (default_call (venv_command config)) ok)"
    and "\<And>ok. P (Exec (default_call (conda_command config)) ok)"
  shows "behaves P (setupPythonEnvironment sys config)"
proof -
  have eq: "setupPythonEnvironment sys config =
      (\<lambda>tr. if python_environment config = Some Venv
            then do_exec sys (default_call (venv_command config)) tr
            else if python_environment config = Some Conda
            then do_exec sys (default_call (conda_command config)) tr
            else (Inr (), tr))"
    by (rule ext) (simp add: setupPythonEnvironment_def)
  show ?thesis
    unfolding eq using assms by (intro behaves_if behaves_do_exec behaves_return)
qed

lemma behaves_run_command:
  assumes P_chmod: "\<And>file ok. P (Chmod file ''755'' ok)"
    and P_script: "\<And>script ok.
           script \<in> set (scripts_start (scripts config) # scripts_setup (scripts config)) \<Longrightarrow>
           P (Exec (script_call (activation_prefix config @ script)
                      (setEnvVars config (process_env sys)) baseDir) ok)"
    and P_init: "\<And>cmd ok. cmd \<in> {clone_command config, checkout_command config,
                       venv_command config, conda_command config} \<Longrightarrow>
           P (Exec (default_call cmd) ok)"
  shows "\<exists>r new. run_command sys command baseDir config = (r, new) \<and>
           (\<forall>ev \<in> set new. P ev) \<and> (\<forall>ev \<in> set (butlast new). \<not> failed_exec ev) \<and>
           (\<forall>u. r = Inr u \<longrightarrow> (\<forall>ev \<in> set new. \<not> failed_exec ev))"
proof -
  let ?env = "setEnvVars config (process_env sys)"
  let ?f = "\<lambda>tr. if command = ''install''
         then and_then
                (if autoInitialize config
                 then and_then (initializeRepo sys config tr)
                               (setupPythonEnvironment sys config)
                 else (Inr (), tr))
                (runSetupScripts sys (scripts_setup (scripts config)) config ?env baseDir)
         else if command = ''start''
         then runScript sys (scripts_start (scripts config)) config ?env baseDir tr
         else (Inr (), tr)"
  have "behaves P ?f"
    by (intro behaves_if behaves_and_then behaves_return behaves_initializeRepo
          behaves_setupPythonEnvironment behaves_runSetupScripts behaves_runScript
          P_chmod P_script P_init) simp_all
  then obtain new where "snd (?f []) = [] @ new" "\<forall>ev \<in> set new. P ev"
      "\<forall>ev \<in> set (butlast new). \<not> failed_exec ev"
      "\<forall>u. fst (?f []) = Inr u \<longrightarrow> (\<forall>ev \<in> set new. \<not> failed_exec ev)"
    unfolding behaves_def by blast
  moreover have "run_command sys command baseDir config = ?f []"
    by (simp add: run_command_def Let_def)
  ultimately show ?thesis
    by (intro exI [of _ "fst (?f [])"] exI [of _ new]) (simp add: prod_eq_iff)
qed


lemma set_exec_calls: "call \<in> set (exec_calls tr) \<longleftrightarrow> (\<exists>ok. Exec call ok \<in> set tr)"
  by (induction tr rule: exec_calls.induct) auto

lemma main_valid:
  assumes "valid_invocation sys argv command baseDir config"
  shows "main sys argv =
           Some (exit_status (fst (run_command sys command baseDir config)),
                 snd (run_command sys command baseDir config))"
proof -
  obtain r tr where rc: "run_command sys command baseDir config = (r, tr)"
    by (cases "run_command sys command baseDir config")
  from assms have "main_try sys argv = Some (r, tr)"
    by (auto simp: valid_invocation_def main_try_def rc split: sum.splits)
  then show ?thesis
    by (simp add: main_def rc)
qed


subsection \<open>The sample runs\<close>

lemma valid_demo:
  "valid_invocation (demo_system (demo_yaml init) penv chmod_ok exec_ok) (demo_argv ''install'')
     ''install'' ''/srv/demo'' (demo_config init)"
  "valid_invocation (demo_system (demo_yaml init) penv chmod_ok exec_ok) (demo_argv ''start'')
     ''start'' ''/srv/demo'' (demo_config init)"
  by (simp_all add: valid_invocation_def demo_argv_def argv_at_def readConfig_def
      demo_system_def demo_yaml_def demo_config_def validateConfig_def requiredProps_def
      checkScripts_def objectPrototypeProps_def field_def)



lemma main_demo_a_fails:
  "main (demo_system (demo_yaml False) Map.empty (\<lambda>f. True)
              (\<lambda>c. c \<noteq> ''source demo/venv/bin/activate && a.sh''))
        (demo_argv ''install'') =
     Some (1, [Chmod ''/srv/demo/a.sh'' ''755'' True,
               Exec (script_call ''source demo/venv/bin/activate && a.sh''
                       (setEnvVars (demo_config False) Map.empty) ''/srv/demo'') False])"
  unfolding main_valid [OF valid_demo(1)]
  by (simp add: run_command_def runScript_unfold do_exec_def
      exit_status_def endsWith_def activation_prefix_def getActivationCommand_def
      python_environment_def demo_system_def demo_config_def script_call_def)

lemma main_demo_start:
  "main (demo_system (demo_yaml False) Map.empty (\<lambda>f. True) (\<lambda>c. True)) (demo_argv ''start'') =
     Some (0, [Chmod ''/srv/demo/run.sh'' ''755'' True,
               Exec (script_call ''source demo/venv/bin/activate && run.sh''
                       (setEnvVars (demo_config False) Map.empty) ''/srv/demo'') True])"
  unfolding main_valid [OF valid_demo(2)]
  by (simp add: Let_def run_command_def runScript_unfold do_exec_def
      exit_status_def endsWith_def activation_prefix_def getActivationCommand_def
      python_environment_def demo_system_def demo_config_def script_call_def)

lemma main_demo_init:
  "main (demo_system (demo_yaml True) Map.empty (\<lambda>f. True) (\<lambda>c. True)) (demo_argv ''install'') =
     Some (0, [Exec (default_call (clone_command (demo_config True))) True,
               Exec (default_call (checkout_command (demo_config True))) True,
               Exec (default_call (venv_command (demo_config True))) True,
               Chmod ''/srv/demo/a.sh'' ''755'' True,
               Exec (script_call ''source demo/venv/bin/activate && a.sh''
                       (setEnvVars (demo_config True) Map.empty) ''/srv/demo'') True,
               Chmod ''/srv/demo/b.sh'' ''755'' True,
               Exec (script_call ''source demo/venv/bin/activate && b.sh''
                       (setEnvVars (demo_config True) Map.empty) ''/srv/demo'') True])"
  unfolding main_valid [OF valid_demo(1)]
  by (simp add: Let_def run_command_def runScript_unfold do_exec_def initializeRepo_def
      setupPythonEnvironment_def
      exit_status_def endsWith_def activation_prefix_def getActivationCommand_def
      python_environment_def demo_system_def demo_config_def script_call_def default_call_def)

section \<open>The script runner\<close>

text \<open>
  Claim C9. For a script whose name ends in \<^verbatim>\<open>.sh\<close>, \<^verbatim>\<open>runScript\<close> first sets the mode of
  the script, at the path joined from the base directory and the script, to \<^verbatim>\<open>755\<close>, and
  only then runs it; when that chmod fails, \<^verbatim>\<open>runScript\<close> throws and the script is never
  run. A script whose name does not end in \<^verbatim>\<open>.sh\<close> is run without any chmod.
\<close>

theorem runScript_chmod_first:
  "(let file = path_join sys baseDir script;
        call = script_call (activation_prefix config @ script) env_map baseDir
    in (endsWith script ''.sh'' \<and> chmodSync sys tr file ''755'' \<longrightarrow>
          snd (runScript sys script config env_map baseDir tr) =
            tr @ [Chmod file ''755'' True,
                  Exec call (execSync sys (tr @ [Chmod file ''755'' True]) call)]) \<and>
       (endsWith script ''.sh'' \<and> \<not> chmodSync sys tr file ''755'' \<longrightarrow>
          runScript sys script config env_map baseDir tr =
            (Inl (ChmodFailed file), tr @ [Chmod file ''755'' False])) \<and>
       (\<not> endsWith script ''.sh'' \<longrightarrow>
          snd (runScript sys script config env_map baseDir tr) =
            tr @ [Exec call (execSync sys tr call)]))"
  by (simp add: runScript_unfold do_exec_def Let_def)

theorem runScript_chmod_first_witness:
  "endsWith ''a.sh'' ''.sh'' \<and> \<not> endsWith ''make install'' ''.sh'' \<and>
   snd (runScript (demo_system (demo_yaml False) Map.empty (\<lambda>f. True) (\<lambda>c. True))
          ''a.sh'' (demo_config False) Map.empty ''/srv/demo'' []) =
     [Chmod ''/srv/demo/a.sh'' ''755'' True,
      Exec (script_call ''source demo/venv/bin/activate && a.sh'' Map.empty ''/srv/demo'') True] \<and>
   runScript (demo_system (demo_yaml False) Map.empty (\<lambda>f. False) (\<lambda>c. True))
          ''a.sh'' (demo_config False) Map.empty ''/srv/demo'' [] =
     (Inl (ChmodFailed ''/srv/demo/a.sh''), [Chmod ''/srv/demo/a.sh'' ''755'' False]) \<and>
   snd (runScript (demo_system (demo_yaml False) Map.empty (\<lambda>f. False) (\<lambda>c. True))
          ''make install'' (demo_config False) Map.empty ''/srv/demo'' []) =
     [Exec (script_call ''source demo/venv/bin/activate && make install'' Map.empty
              ''/srv/demo'') True]"
  using
    runScript_chmod_first [of "demo_system (demo_yaml False) Map.empty (\<lambda>f. True) (\<lambda>c. True)"
      "''/srv/demo''" "''a.sh''" "demo_config False" Map.empty "[]"]
    runScript_chmod_first [of "demo_system (demo_yaml False) Map.empty (\<lambda>f. False) (\<lambda>c. True)"
      "''/srv/demo''" "''a.sh''" "demo_config False" Map.empty "[]"]
    runScript_chmod_first [of "demo_system (demo_yaml False) Map.empty (\<lambda>f. False) (\<lambda>c. True)"
      "''/srv/demo''" "''make install''" "demo_config False" Map.empty "[]"]
  by (simp add: Let_def endsWith_def demo_system_def demo_config_def activation_prefix_def
      getActivationCommand_def python_environment_def)

section \<open>The commands\<close>

text \<open>
  Claim C6. In a run of \<^verbatim>\<open>install\<close>, a child process that exits with a non-zero status
  is the last thing the run does, and the process ends with status 1: after a setup
  script that failed, no later script is made executable or run. In the sequence
  \<^verbatim>\<open>[a.sh, b.sh]\<close> with a failing \<^verbatim>\<open>a.sh\<close>, the run ends after \<^verbatim>\<open>a.sh\<close>.
\<close>

theorem failed_script_ends_run:
  assumes "valid_invocation sys argv ''install'' baseDir config"
    and "main sys argv = Some (code, tr)"
    and "tr = before @ Exec call False # after"
  shows "after = [] \<and> code = 1"
proof -
  from behaves_run_command [of "\<lambda>ev. True" config sys baseDir "''install''"]
  obtain r new where rc: "run_command sys ''install'' baseDir config = (r, new)"
    and butlast: "\<forall>ev \<in> set (butlast new). \<not> failed_exec ev"
    and ok: "\<forall>u. r = Inr u \<longrightarrow> (\<forall>ev \<in> set new. \<not> failed_exec ev)"
    by auto
  from main_valid [OF assms(1)] assms(2) rc have code: "code = exit_status r" and tr: "tr = new"
    by simp_all
  have "after = []"
  proof (rule ccontr)
    assume "after \<noteq> []"
    then have "Exec call False \<in> set (butlast tr)"
      using assms(3) by (simp add: butlast_append)
    with butlast tr show False by auto
  qed
  moreover have "Exec call False \<in> set new"
    using assms(3) tr by simp
  with ok have "\<exists>e. r = Inl e"
    by (cases r) auto
  then have "code = 1"
    using code by (auto simp: exit_status_def)
  ultimately show ?thesis by simp
qed

theorem failed_script_ends_run_witness:
  "valid_invocation
     (demo_system (demo_yaml False) Map.empty (\<lambda>f. True)
        (\<lambda>c. c \<noteq> ''source demo/venv/bin/activate && a.sh''))
     (demo_argv ''install'') ''install'' ''/srv/demo'' (demo_config False) \<and>
   main (demo_system (demo_yaml False) Map.empty (\<lambda>f. True)
           (\<lambda>c. c \<noteq> ''source demo/venv/bin/activate && a.sh''))
        (demo_argv ''install'') =
     Some (1, [Chmod ''/srv/demo/a.sh'' ''755'' True,
               Exec (script_call ''source demo/venv/bin/activate && a.sh''
                       (setEnvVars (demo_config False) Map.empty) ''/srv/demo'') False])"
proof -
  let ?sys = "demo_system (demo_yaml False) Map.empty (\<lambda>f. True)
                (\<lambda>c. c \<noteq> ''source demo/venv/bin/activate && a.sh'')"
  let ?call = "script_call ''source demo/venv/bin/activate && a.sh''
                 (setEnvVars (demo_config False) Map.empty) ''/srv/demo''"
  have v: "valid_invocation ?sys (demo_argv ''install'') ''install'' ''/srv/demo''
             (demo_config False)"
    by (rule valid_demo(1))
  have "[Chmod ''/srv/demo/a.sh'' ''755'' True, Exec ?call False] =
          [Chmod ''/srv/demo/a.sh'' ''755'' True] @ Exec ?call False # []"
    by simp
  from failed_script_ends_run [OF v main_demo_a_fails this] v main_demo_a_fails
  show ?thesis by simp
qed



text \<open>
  Claim C7, as amended. For a valid configuration, \<^verbatim>\<open>start\<close> runs the script runner once,
  on \<^verbatim>\<open>scripts.start\<close>. Unless the start script ends in \<^verbatim>\<open>.sh\<close> and cannot be made
  executable, the run has exactly one child process, started through \<^verbatim>\<open>/bin/bash\<close> with
  the built environment mapping in the base directory; its command is \<^verbatim>\<open>scripts.start\<close>
  as written, with the activation command before it exactly when
  \<^verbatim>\<open>autoActivateEnvBeforeEachStep\<close> is true and the Python environment kind is \<^verbatim>\<open>venv\<close> or
  \<^verbatim>\<open>conda\<close>, where that command is not empty. When the chmod fails, the run is that
  failed chmod alone and the status is 1.
\<close>

theorem start_runs_one_script:
  assumes "valid_invocation sys argv ''start'' baseDir config"
  shows "\<exists>code tr.
           main sys argv = Some (code, tr) \<and>
           (if endsWith (scripts_start (scripts config)) ''.sh'' \<and>
               \<not> chmodSync sys [] (path_join sys baseDir (scripts_start (scripts config))) ''755''
            then code = 1 \<and>
                 tr = [Chmod (path_join sys baseDir (scripts_start (scripts config))) ''755''
                         False]
            else \<exists>ok.
                 code = (if ok then 0 else 1) \<and>
                 tr =
                   (if endsWith (scripts_start (scripts config)) ''.sh''
                    then [Chmod (path_join sys baseDir (scripts_start (scripts config)))
                            ''755'' True]
                    else []) @
                   [Exec \<lparr>exec_command =
                            (if autoActivateEnvBeforeEachStep config \<and>
                                (python_environment config = Some Venv \<or>
                                 python_environment config = Some Conda)
                             then getActivationCommand config else [])
                            @ scripts_start (scripts config),
                          exec_shell = Some ''/bin/bash'',
                          exec_env = Some (setEnvVars config (process_env sys)),
                          exec_cwd = Some baseDir\<rparr>
                      ok]) \<and>
           (python_environment config = Some Venv \<or> python_environment config = Some Conda
              \<longrightarrow> getActivationCommand config \<noteq> [])"
proof -
  let ?env = "setEnvVars config (process_env sys)"
  let ?s = "scripts_start (scripts config)"
  let ?run = "runScript sys ?s config ?env baseDir []"
  have rc: "run_command sys ''start'' baseDir config = ?run"
    by (simp add: run_command_def Let_def)
  have prefix: "activation_prefix config =
      (if autoActivateEnvBeforeEachStep config \<and>
          (python_environment config = Some Venv \<or> python_environment config = Some Conda)
       then getActivationCommand config else [])"
    by (simp add: activation_prefix_def getActivationCommand_def)
  have nonempty: "python_environment config = Some Venv \<or> python_environment config = Some Conda
      \<longrightarrow> getActivationCommand config \<noteq> []"
    by (auto simp: getActivationCommand_def)
  have m: "main sys argv = Some (exit_status (fst ?run), snd ?run)"
    using main_valid [OF assms] rc by simp
  show ?thesis
    unfolding m using nonempty
    by (simp add: runScript_unfold do_exec_def Let_def exit_status_def script_call_def
        prefix [symmetric])
qed

theorem start_runs_one_script_witness:
  "main (demo_system (demo_yaml False) Map.empty (\<lambda>f. True) (\<lambda>c. True)) (demo_argv ''start'') =
     Some (0, [Chmod ''/srv/demo/run.sh'' ''755'' True,
               Exec \<lparr>exec_command = ''source demo/venv/bin/activate && run.sh'',
                     exec_shell = Some ''/bin/bash'',
                     exec_env = Some (setEnvVars (demo_config False) Map.empty),
                     exec_cwd = Some ''/srv/demo''\<rparr> True])"
  using start_runs_one_script [OF valid_demo(2), of False Map.empty "\<lambda>f. True" "\<lambda>c. True"]
    main_demo_start
  by (simp add: script_call_def)

text \<open>
  Claim C7 as it is written fails: when \<^verbatim>\<open>run.sh\<close> cannot be made executable, \<^verbatim>\<open>start\<close>
  executes no script at all.
\<close>

theorem start_without_execution:
  "main (demo_system (demo_yaml False) Map.empty (\<lambda>f. False) (\<lambda>c. True)) (demo_argv ''start'') =
     Some (1, [Chmod ''/srv/demo/run.sh'' ''755'' False]) \<and>
   exec_calls [Chmod ''/srv/demo/run.sh'' ''755'' False] = []"
  unfolding main_valid [OF valid_demo(2)]
  by (simp add: Let_def run_command_def runScript_unfold do_exec_def
      exit_status_def endsWith_def demo_system_def demo_config_def)

text \<open>
  Claim C2, as amended. Every child process of a valid invocation is started in one of
  two ways. A setup or start script is run through \<^verbatim>\<open>/bin/bash\<close> with the built
  environment mapping as its environment and the base directory as its working
  directory; that mapping defines \<^verbatim>\<open>APP_REPO\<close>, \<^verbatim>\<open>APP_VERSION\<close>, \<^verbatim>\<open>APP_DIRECTORY\<close> and every
  declared port and option variable whose name is not one that objects inherit from
  \<^verbatim>\<open>Object.prototype\<close>. The repository clone and checkout and the Python provisioning
  command are run with no shell, environment or working directory given: the default
  shell and the environment and directory of the running process, so that the built
  mapping is not what they receive.
\<close>

theorem child_process_options:
  assumes "valid_invocation sys argv command baseDir config"
  shows "\<exists>code tr.
           main sys argv = Some (code, tr) \<and>
           (\<forall>call \<in> set (exec_calls tr).
              script_runner_call config (setEnvVars config (process_env sys)) baseDir call \<or>
              initializer_call config call) \<and>
           setEnvVars config (process_env sys) ''APP_REPO'' \<noteq> None \<and>
           setEnvVars config (process_env sys) ''APP_VERSION'' \<noteq> None \<and>
           setEnvVars config (process_env sys) ''APP_DIRECTORY'' \<noteq> None \<and>
           (\<forall>p \<in> set (case ports config of None \<Rightarrow> [] | Some ps \<Rightarrow> ps).
              port_envVar p \<notin> set objectPrototypeProps \<longrightarrow>
              setEnvVars config (process_env sys) (port_envVar p) \<noteq> None) \<and>
           (\<forall>p \<in> set (case additionalOptions config of None \<Rightarrow> [] | Some os \<Rightarrow> os).
              option_envVar p \<notin> set objectPrototypeProps \<longrightarrow>
              setEnvVars config (process_env sys) (option_envVar p) \<noteq> None)"
proof -
  let ?env = "setEnvVars config (process_env sys)"
  let ?P = "\<lambda>ev. case ev of
              Chmod file mode ok \<Rightarrow> True
            | Exec call ok \<Rightarrow>
                script_runner_call config ?env baseDir call \<or> initializer_call config call"
  have "\<exists>r new. run_command sys command baseDir config = (r, new) \<and>
           (\<forall>ev \<in> set new. ?P ev) \<and> (\<forall>ev \<in> set (butlast new). \<not> failed_exec ev) \<and>
           (\<forall>u. r = Inr u \<longrightarrow> (\<forall>ev \<in> set new. \<not> failed_exec ev))"
    by (rule behaves_run_command)
       (auto simp: script_runner_call_def initializer_call_def script_call_def default_call_def)
  then obtain r new where rc: "run_command sys command baseDir config = (r, new)"
    and P: "\<forall>ev \<in> set new. ?P ev"
    by blast
  have calls: "\<forall>call \<in> set (exec_calls new).
          script_runner_call config ?env baseDir call \<or> initializer_call config call"
  proof
    fix call
    assume "call \<in> set (exec_calls new)"
    then obtain ok where "Exec call ok \<in> set new"
      by (auto simp: set_exec_calls)
    with P have "?P (Exec call ok)" by blast
    then show "script_runner_call config ?env baseDir call \<or> initializer_call config call"
      by simp
  qed
  have m: "main sys argv = Some (exit_status r, new)"
    using main_valid [OF assms] rc by simp
  show ?thesis
    by (rule exI [of _ "exit_status r"], rule exI [of _ new])
       (use m calls in \<open>simp add: setEnvVars_fixed_defined setEnvVars_port_defined
          setEnvVars_option_defined\<close>)
qed

theorem child_process_options_witness:
  "main (demo_system (demo_yaml True) Map.empty (\<lambda>f. True) (\<lambda>c. True))
        (demo_argv ''install'') =
     Some (0, [Exec (default_call (clone_command (demo_config True))) True,
               Exec (default_call (checkout_command (demo_config True))) True,
               Exec (default_call (venv_command (demo_config True))) True,
               Chmod ''/srv/demo/a.sh'' ''755'' True,
               Exec (script_call ''source demo/venv/bin/activate && a.sh''
                       (setEnvVars (demo_config True) Map.empty) ''/srv/demo'') True,
               Chmod ''/srv/demo/b.sh'' ''755'' True,
               Exec (script_call ''source demo/venv/bin/activate && b.sh''
                       (setEnvVars (demo_config True) Map.empty) ''/srv/demo'') True]) \<and>
   initializer_call (demo_config True) (default_call (clone_command (demo_config True))) \<and>
   script_runner_call (demo_config True) (setEnvVars (demo_config True) Map.empty)
     ''/srv/demo''
     (script_call ''source demo/venv/bin/activate && a.sh''
        (setEnvVars (demo_config True) Map.empty) ''/srv/demo'') \<and>
   setEnvVars (demo_config True) Map.empty ''APP_REPO'' = Some ''https://example.org/demo.git'' \<and>
   setEnvVars (demo_config True) Map.empty ''PORT'' = Some ''8080'' \<and>
   setEnvVars (demo_config True) Map.empty ''MODE'' = Some ''fast''"
proof -
  have "initializer_call (demo_config True) (default_call (clone_command (demo_config True)))"
    by (simp add: initializer_call_def default_call_def)
  moreover have "script_runner_call (demo_config True)
      (setEnvVars (demo_config True) Map.empty) ''/srv/demo''
      (script_call ''source demo/venv/bin/activate && a.sh''
         (setEnvVars (demo_config True) Map.empty) ''/srv/demo'')"
    by (simp add: script_runner_call_def script_call_def activation_prefix_def
        getActivationCommand_def python_environment_def demo_config_def)
  moreover have "setEnvVars (demo_config True) Map.empty ''APP_REPO'' =
      Some ''https://example.org/demo.git''"
    "setEnvVars (demo_config True) Map.empty ''PORT'' = Some ''8080''"
    "setEnvVars (demo_config True) Map.empty ''MODE'' = Some ''fast''"
    by (simp_all add: setEnvVars_def demo_config_def seedEnv_def in_env_def
        objectPrototypeProps_def number_toString_def int_toString_def
        Abs_safe_integer_inverse nat_toString.simps)
  ultimately show ?thesis
    using child_process_options
        [OF valid_demo(1), of True Map.empty "\<lambda>f. True" "\<lambda>c. True"]
      main_demo_init
    by simp
qed

text \<open>
  Claim C2 as it is written fails: in an \<^verbatim>\<open>install\<close> with \<^verbatim>\<open>autoInitialize\<close> the first child
  process is \<^verbatim>\<open>git clone\<close>, which is not run through \<^verbatim>\<open>/bin/bash\<close> and does not get the
  built environment mapping.
\<close>

theorem clone_runs_with_default_options:
  "main (demo_system (demo_yaml True) Map.empty (\<lambda>f. True) (\<lambda>c. True))
        (demo_argv ''install'') =
     Some (0, [Exec (default_call (clone_command (demo_config True))) True,
               Exec (default_call (checkout_command (demo_config True))) True,
               Exec (default_call (venv_command (demo_config True))) True,
               Chmod ''/srv/demo/a.sh'' ''755'' True,
               Exec (script_call ''source demo/venv/bin/activate && a.sh''
                       (setEnvVars (demo_config True) Map.empty) ''/srv/demo'') True,
               Chmod ''/srv/demo/b.sh'' ''755'' True,
               Exec (script_call ''source demo/venv/bin/activate && b.sh''
                       (setEnvVars (demo_config True) Map.empty) ''/srv/demo'') True]) \<and>
   clone_command (demo_config True) =
     ''git clone https://example.org/demo.git '' @ dquote @ ''demo'' @ dquote \<and>
   exec_shell (default_call (clone_command (demo_config True))) \<noteq> Some ''/bin/bash'' \<and>
   exec_env (default_call (clone_command (demo_config True))) \<noteq>
     Some (setEnvVars (demo_config True) Map.empty)"
  using main_demo_init
  by (simp add: default_call_def clone_command_def demo_config_def)

end
